theory Spec2Isabelle
  imports Main "HOL-Library.Word"
begin

unbundle bit_operations_syntax

section \<open>ntl::RandomTwister (ntlRandom.hpp)\<close>

text \<open>
  \<^verbatim>\<open>RandomTwister\<close> owns one \<^verbatim>\<open>std::mt19937\<close> through a
  \<^verbatim>\<open>std::unique_ptr\<close> and forwards every sampling call to a distribution object of
  the C++ standard library, built afresh for that one call and run on \<^verbatim>\<open>*engine\<close>.
  The header \<^verbatim>\<open><random>\<close> is not part of the repository: the engine's seeding is
  written out below as ISO C++ fixes it, and the distributions, whose algorithms ISO C++
  leaves to the implementation, are parameters of the sampling functions.
\<close>

subsection \<open>The engine: state and seeding of std::mt19937\<close>

type_synonym u32 = "32 word"

text \<open>
  Modelled from the spec: \<^verbatim>\<open>std::mt19937\<close> (\<^verbatim>\<open>engine_type\<close>, line 31) is the
  standard library's engine and its code is not among the repository's sources. The
  spec calls it "a Mersenne Twister-class generator, internal state ~2.5KB of 32-bit words":
  \<open>n = 624\<close> words of \<open>w = 32\<close> bits and the position of the next word to hand out.
\<close>

record mt19937 =
  mt_x :: "u32 list"
  mt_i :: nat

text \<open>
  Modelled from the spec: the seeding recurrence of \<^verbatim>\<open>std::mt19937\<close>, absent from the
  repository's sources.
  The spec's "deterministic initialization" is, for this engine (ISO C++ [rand.eng.mers],
  initialization multiplier \<open>f = 1812433253\<close>): the first word is the seed modulo \<open>2^32\<close>
  and word \<open>i\<close> is \<open>f * (x[i-1] xor (x[i-1] >> 30)) + i\<close> modulo \<open>2^32\<close>.
\<close>

definition seed_step :: "u32 \<Rightarrow> nat \<Rightarrow> u32" where
  "seed_step prev i = 1812433253 * (prev XOR drop_bit 30 prev) + word_of_nat i"

fun seed_word :: "u32 \<Rightarrow> nat \<Rightarrow> u32" where
  "seed_word v 0 = v"
| "seed_word v (Suc i) = seed_step (seed_word v i) (Suc i)"

text \<open>
  Modelled from the spec: the constructor \<^verbatim>\<open>engine_type(seed)\<close> of the absent
  \<^verbatim>\<open>std::mt19937\<close>. The seed arrives as an \<^verbatim>\<open>unsigned long\<close> of any width
  (32 bits with MSVC, 64 bits on LP64 platforms); the engine keeps it modulo \<open>2^32\<close>,
  which is what \<open>ucast\<close> to a 32-bit word computes.
\<close>

definition mt19937_ctor :: "'a::len word \<Rightarrow> mt19937" where
  "mt19937_ctor value = \<lparr>mt_x = map (seed_word (ucast value)) [0..<624], mt_i = 624\<rparr>"

text \<open>
  Modelled from the spec: the member \<^verbatim>\<open>seed(value)\<close> of the absent \<^verbatim>\<open>std::mt19937\<close>.
  The spec says it "reseeds the existing engine in place": the loop writes the 624 words
  of the existing array one after the other, each from the word just written, and resets
  the position. The array of the C++ object always has 624 words; on a list of another
  length the reads and writes below would fall outside it.
\<close>

function seed_loop :: "nat \<Rightarrow> u32 list \<Rightarrow> u32 list" where
  "seed_loop i x =
     (if i < 624 then seed_loop (Suc i) (x[i := seed_step (x ! (i - 1)) i]) else x)"
  by pat_completeness auto
termination
  by (relation "measure (\<lambda>(i, x). 624 - i)") auto

declare seed_loop.simps [simp del]

definition mt19937_seed :: "'a::len word \<Rightarrow> mt19937 \<Rightarrow> mt19937" where
  "mt19937_seed value e =
     e\<lparr>mt_x := seed_loop 1 ((mt_x e)[0 := ucast value]), mt_i := 624\<rparr>"

subsection \<open>Objects, the free store and the entropy source\<close>

text \<open>
  The source has two ways to fail. \<^verbatim>\<open>new engine_type(...)\<close> throws
  \<^verbatim>\<open>std::bad_alloc\<close> when the free store is exhausted (comments at lines 37 and 42).
  Dereferencing \<^verbatim>\<open>engine\<close> after the object was moved from is undefined behaviour
  in C++; here it is the value \<open>null_engine\<close>, so that no theorem can rest on it.
\<close>

datatype error = bad_alloc | null_engine

text \<open>
  \<^verbatim>\<open>std::unique_ptr<engine_type> engine\<close> (line 86): \<open>None\<close> is the null pointer,
  \<open>Some e\<close> owns a block of the free store that holds the engine state \<open>e\<close>. The
  pointer has exactly one owner, so the block's content is kept where the pointer is.
\<close>

record RandomTwister =
  engine :: "mt19937 option"

text \<open>
  The objects of the program are referred to by \<open>Obj n\<close>; \<open>Temp\<close> is the local
  variable \<^verbatim>\<open>temp\<close> of \<^verbatim>\<open>operator=\<close>, which no caller can name.
\<close>

datatype ref = Obj nat | Temp

text \<open>
  Everything a member function could touch: the objects, the number of engine-sized
  blocks \<^verbatim>\<open>operator new\<close> can still hand out, and the values
  \<^verbatim>\<open>std::random_device\<close> is going to return with the number already taken.
\<close>

record world =
  objs :: "ref \<Rightarrow> RandomTwister"
  free_blocks :: nat
  entropy :: "nat \<Rightarrow> u32"
  entropy_pos :: nat

definition operator_new :: "world \<Rightarrow> error + world" where
  "operator_new w =
     (if free_blocks w = 0 then Inl bad_alloc
      else Inr (w\<lparr>free_blocks := free_blocks w - 1\<rparr>))"


subsection \<open>Construction, destruction, move and swap (lines 98-124)\<close>

text \<open>\<^verbatim>\<open>RandomTwister(unsigned long seed) : engine(new engine_type(seed))\<close>\<close>

definition RandomTwister_from_seed :: "'a::len word \<Rightarrow> ref \<Rightarrow> world \<Rightarrow> error + world" where
  "RandomTwister_from_seed seed this w =
     (case operator_new w of
        Inl err \<Rightarrow> Inl err
      | Inr w1 \<Rightarrow> Inr (w1\<lparr>objs := (objs w1)(this := \<lparr>engine = Some (mt19937_ctor seed)\<rparr>)\<rparr>))"


text \<open>
  \<^verbatim>\<open>~RandomTwister() = default\<close>: the \<^verbatim>\<open>unique_ptr\<close> deletes the engine it owns,
  and a null pointer deletes nothing.
\<close>

definition destroy :: "ref \<Rightarrow> world \<Rightarrow> world" where
  "destroy this w =
     (case engine (objs w this) of
        None \<Rightarrow> w
      | Some e \<Rightarrow> w\<lparr>objs := (objs w)(this := (objs w this)\<lparr>engine := None\<rparr>),
                    free_blocks := Suc (free_blocks w)\<rparr>)"

text \<open>
  \<^verbatim>\<open>RandomTwister(RandomTwister&& other) : engine(std::move(other.engine))\<close>: the
  pointer leaves \<^verbatim>\<open>other\<close>, which keeps a null pointer, and the new object holds it.
\<close>

definition RandomTwister_move :: "ref \<Rightarrow> ref \<Rightarrow> world \<Rightarrow> world" where
  "RandomTwister_move this other w =
     (let p = engine (objs w other);
          w1 = w\<lparr>objs := (objs w)(other := (objs w other)\<lparr>engine := None\<rparr>)\<rparr>
      in w1\<lparr>objs := (objs w1)(this := \<lparr>engine = p\<rparr>)\<rparr>)"

text \<open>
  \<^verbatim>\<open>swap(this->engine, other.engine)\<close>: both pointers are read, then each object is
  written with the other's; \<^verbatim>\<open>this\<close> and \<^verbatim>\<open>other\<close> may be the same object.
\<close>

definition swap :: "ref \<Rightarrow> ref \<Rightarrow> world \<Rightarrow> world" where
  "swap this other w =
     (let p = engine (objs w this);
          q = engine (objs w other);
          w1 = w\<lparr>objs := (objs w)(this := (objs w this)\<lparr>engine := q\<rparr>)\<rparr>
      in w1\<lparr>objs := (objs w1)(other := (objs w1 other)\<lparr>engine := p\<rparr>)\<rparr>)"

text \<open>
  \<^verbatim>\<open>operator=(RandomTwister&& other)\<close>: its three steps are
  \<^verbatim>\<open>RandomTwister temp(std::move(other))\<close>, \<^verbatim>\<open>temp.swap(*this)\<close>, and the
  destruction of \<^verbatim>\<open>temp\<close> when the function returns. \<^verbatim>\<open>this\<close> and
  \<^verbatim>\<open>other\<close> are objects of the caller and may be the same one.
\<close>

definition operator_assign :: "nat \<Rightarrow> nat \<Rightarrow> world \<Rightarrow> world" where
  "operator_assign this other w =
     (let w1 = RandomTwister_move Temp (Obj other) w;
          w2 = swap Temp (Obj this) w1
      in destroy Temp w2)"

subsection \<open>Sampling and reseeding (lines 126-151)\<close>

text \<open>
  Each sampling member builds a distribution object from its arguments and applies it
  once to \<^verbatim>\<open>*engine\<close>. The distribution is a temporary: nothing of it outlives the
  call, so what the call returns and how it leaves the engine is a function \<open>d\<close> of the
  engine state alone.
\<close>

definition on_engine :: "(mt19937 \<Rightarrow> 'v \<times> mt19937) \<Rightarrow> ref \<Rightarrow> world \<Rightarrow> error + 'v \<times> world" where
  "on_engine d this w =
     (case engine (objs w this) of
        None \<Rightarrow> Inl null_engine
      | Some e \<Rightarrow>
          (let (v, e') = d e
           in Inr (v, w\<lparr>objs := (objs w)(this := (objs w this)\<lparr>engine := Some e'\<rparr>)\<rparr>)))"

text \<open>
  A \<^verbatim>\<open>double\<close> is its 64 bits (IEEE 754 binary64); no arithmetic is done on it
  here. \<open>double_0\<close> and \<open>double_1\<close> are the literals \<^verbatim>\<open>0.0\<close> and \<^verbatim>\<open>1.0\<close>.
\<close>

type_synonym double = "64 word"

definition double_0 :: double where
  "double_0 = 0"

definition double_1 :: double where
  "double_1 = 0x3FF0000000000000"

text \<open>
  \<^verbatim>\<open>std::uniform_int_distribution<IntegerT>(lo, hi)(*engine)\<close>, with the library's
  distribution for \<^verbatim>\<open>IntegerT\<close> as \<open>dist\<close>.
\<close>

definition uniform_int ::
  "('i \<Rightarrow> 'i \<Rightarrow> mt19937 \<Rightarrow> 'i \<times> mt19937) \<Rightarrow> 'i \<Rightarrow> 'i \<Rightarrow> ref \<Rightarrow> world \<Rightarrow> error + 'i \<times> world" where
  "uniform_int dist lowerInclusiveBound upperInclusiveBound this w =
     on_engine (dist lowerInclusiveBound upperInclusiveBound) this w"

text \<open>\<^verbatim>\<open>std::uniform_real_distribution<RealT>(lo, hi)(*engine)\<close>\<close>

definition uniform_real ::
  "('r \<Rightarrow> 'r \<Rightarrow> mt19937 \<Rightarrow> 'r \<times> mt19937) \<Rightarrow> 'r \<Rightarrow> 'r \<Rightarrow> ref \<Rightarrow> world \<Rightarrow> error + 'r \<times> world" where
  "uniform_real dist lowerInclusiveBound upperInclusiveBound this w =
     on_engine (dist lowerInclusiveBound upperInclusiveBound) this w"

text \<open>\<^verbatim>\<open>std::uniform_real_distribution<double>(0.0, 1.0)(*engine)\<close>\<close>

definition uniform_probability ::
  "(double \<Rightarrow> double \<Rightarrow> mt19937 \<Rightarrow> double \<times> mt19937) \<Rightarrow> ref \<Rightarrow> world \<Rightarrow> error + double \<times> world" where
  "uniform_probability dist this w = on_engine (dist double_0 double_1) this w"

text \<open>\<^verbatim>\<open>std::normal_distribution<double>(mean, sigma)(*engine)\<close>\<close>

definition normal_real ::
  "(double \<Rightarrow> double \<Rightarrow> mt19937 \<Rightarrow> double \<times> mt19937) \<Rightarrow> double \<Rightarrow> double \<Rightarrow> ref \<Rightarrow> world
     \<Rightarrow> error + double \<times> world" where
  "normal_real dist distributionMean distributionSigma this w =
     on_engine (dist distributionMean distributionSigma) this w"

text \<open>\<^verbatim>\<open>engine->seed(_seed)\<close>\<close>

definition seed :: "'a::len word \<Rightarrow> ref \<Rightarrow> world \<Rightarrow> error + world" where
  "seed s this w =
     (case engine (objs w this) of
        None \<Rightarrow> Inl null_engine
      | Some e \<Rightarrow>
          Inr (w\<lparr>objs := (objs w)(this := (objs w this)\<lparr>engine := Some (mt19937_seed s e)\<rparr>)\<rparr>))"

subsection \<open>Sequences of sampling calls\<close>

text \<open>
  The distributions of the standard library that the four sampling members use, for one
  choice of \<^verbatim>\<open>IntegerT\<close> and \<^verbatim>\<open>RealT\<close>.
\<close>

record ('i, 'r) stdlib =
  uniform_int_distribution :: "'i \<Rightarrow> 'i \<Rightarrow> mt19937 \<Rightarrow> 'i \<times> mt19937"
  uniform_real_distribution :: "'r \<Rightarrow> 'r \<Rightarrow> mt19937 \<Rightarrow> 'r \<times> mt19937"
  uniform_real_distribution_double :: "double \<Rightarrow> double \<Rightarrow> mt19937 \<Rightarrow> double \<times> mt19937"
  normal_distribution_double :: "double \<Rightarrow> double \<Rightarrow> mt19937 \<Rightarrow> double \<times> mt19937"

datatype ('i, 'r) call =
  Uniform_int 'i 'i
| Uniform_real 'r 'r
| Uniform_probability
| Normal_real double double

datatype ('i, 'r) sample = Int_sample 'i | Real_sample 'r | Double_sample double

fun call_sample ::
  "('i, 'r) stdlib \<Rightarrow> ('i, 'r) call \<Rightarrow> ref \<Rightarrow> world \<Rightarrow> error + ('i, 'r) sample \<times> world" where
  "call_sample L (Uniform_int lo hi) this w =
     (case uniform_int (uniform_int_distribution L) lo hi this w of
        Inl err \<Rightarrow> Inl err
      | Inr (v, w') \<Rightarrow> Inr (Int_sample v, w'))"
| "call_sample L (Uniform_real lo hi) this w =
     (case uniform_real (uniform_real_distribution L) lo hi this w of
        Inl err \<Rightarrow> Inl err
      | Inr (v, w') \<Rightarrow> Inr (Real_sample v, w'))"
| "call_sample L Uniform_probability this w =
     (case uniform_probability (uniform_real_distribution_double L) this w of
        Inl err \<Rightarrow> Inl err
      | Inr (v, w') \<Rightarrow> Inr (Double_sample v, w'))"
| "call_sample L (Normal_real mean sigma) this w =
     (case normal_real (normal_distribution_double L) mean sigma this w of
        Inl err \<Rightarrow> Inl err
      | Inr (v, w') \<Rightarrow> Inr (Double_sample v, w'))"

text \<open>The calls are made in order on the same object and stop at the first failure.\<close>

fun samples ::
  "('i, 'r) stdlib \<Rightarrow> ('i, 'r) call list \<Rightarrow> ref \<Rightarrow> world
     \<Rightarrow> error + ('i, 'r) sample list \<times> world" where
  "samples L [] this w = Inr ([], w)"
| "samples L (c # cs) this w =
     (case call_sample L c this w of
        Inl err \<Rightarrow> Inl err
      | Inr (v, w1) \<Rightarrow>
          (case samples L cs this w1 of
             Inl err \<Rightarrow> Inl err
           | Inr (vs, w2) \<Rightarrow> Inr (v # vs, w2)))"

text \<open>
  What one call, and a sequence of calls, computes from an engine state: the sample and
  the state the engine is left in.
\<close>

fun draw :: "('i, 'r) stdlib \<Rightarrow> ('i, 'r) call \<Rightarrow> mt19937 \<Rightarrow> ('i, 'r) sample \<times> mt19937" where
  "draw L (Uniform_int lo hi) e = map_prod Int_sample id (uniform_int_distribution L lo hi e)"
| "draw L (Uniform_real lo hi) e = map_prod Real_sample id (uniform_real_distribution L lo hi e)"
| "draw L Uniform_probability e =
     map_prod Double_sample id (uniform_real_distribution_double L double_0 double_1 e)"
| "draw L (Normal_real mean sigma) e =
     map_prod Double_sample id (normal_distribution_double L mean sigma e)"

fun draws ::
  "('i, 'r) stdlib \<Rightarrow> ('i, 'r) call list \<Rightarrow> mt19937 \<Rightarrow> ('i, 'r) sample list \<times> mt19937" where
  "draws L [] e = ([], e)"
| "draws L (c # cs) e =
     (let (v, e1) = draw L c e; (vs, e2) = draws L cs e1 in (v # vs, e2))"

text \<open>The object \<open>this\<close> with the engine state \<open>e\<close>, everything else as in \<open>w\<close>.\<close>

definition with_engine :: "ref \<Rightarrow> mt19937 \<Rightarrow> world \<Rightarrow> world" where
  "with_engine this e w = w\<lparr>objs := (objs w)(this := (objs w this)\<lparr>engine := Some e\<rparr>)\<rparr>"

subsection \<open>What the standard library promises for uniform_int_distribution\<close>

text \<open>
  Modelled from the spec: \<^verbatim>\<open>std::uniform_int_distribution\<close>, the code that picks
  the value \<^verbatim>\<open>uniform_int\<close> returns, belongs to the standard library and is not
  among the repository's sources. The spec says of it: "returns an integer in the closed
  range [low, high]", with the "precondition: low \<le> high". A distribution keeps that
  promise when, for bounds in order and any engine state, its answer lies between them.
\<close>

definition uniform_int_distribution_in_range ::
  "('i::linorder \<Rightarrow> 'i \<Rightarrow> mt19937 \<Rightarrow> 'i \<times> mt19937) \<Rightarrow> bool" where
  "uniform_int_distribution_in_range dist \<longleftrightarrow>
     (\<forall>a b e. a \<le> b \<longrightarrow> a \<le> fst (dist a b e) \<and> fst (dist a b e) \<le> b)"

subsection \<open>Concrete instances\<close>

text \<open>
  For the closed examples: a world without any engine and two free blocks; a world whose
  free store is exhausted; and a library whose distributions answer their first
  argument and move the engine's position by one.
\<close>

definition start :: world where
  "start = \<lparr>objs = (\<lambda>r. \<lparr>engine = None\<rparr>), free_blocks = 2, entropy = (\<lambda>n. 0), entropy_pos = 0\<rparr>"


definition lowest :: "'v \<Rightarrow> 'v \<Rightarrow> mt19937 \<Rightarrow> 'v \<times> mt19937" where
  "lowest a b e = (a, e\<lparr>mt_i := Suc (mt_i e)\<rparr>)"

definition lowest_lib :: "(int, int) stdlib" where
  "lowest_lib = \<lparr>uniform_int_distribution = lowest, uniform_real_distribution = lowest,
     uniform_real_distribution_double = lowest, normal_distribution_double = lowest\<rparr>"

section \<open>Properties\<close>

subsection \<open>Seeding in place writes the whole state\<close>

lemma seed_loop_length: "length (seed_loop i x) = length x"
proof (induction i x rule: seed_loop.induct)
  case (1 i x)
  then show ?case by (subst seed_loop.simps) simp
qed

lemma seed_loop_inv:
  "length x = 624 \<Longrightarrow> 0 < i \<Longrightarrow> i \<le> 624 \<Longrightarrow> \<forall>j<i. x ! j = seed_word v j
   \<Longrightarrow> \<forall>j<624. seed_loop i x ! j = seed_word v j"
proof (induction i x rule: seed_loop.induct)
  case (1 i x)
  show ?case
  proof (cases "i < 624")
    case True
    let ?x' = "x[i := seed_step (x ! (i - 1)) i]"
    from "1.prems" True have prev: "x ! (i - 1) = seed_word v (i - 1)" by simp
    from "1.prems" obtain k where k: "i = Suc k" by (cases i) auto
    have new: "seed_step (x ! (i - 1)) i = seed_word v i"
      using prev k by simp
    have inv: "\<forall>j<Suc i. ?x' ! j = seed_word v j"
      using "1.prems" True new by (auto simp: nth_list_update less_Suc_eq)
    have "\<forall>j<624. seed_loop (Suc i) ?x' ! j = seed_word v j"
      using "1.IH"[OF True] "1.prems" True inv by simp
    then show ?thesis using True by (subst seed_loop.simps) simp
  next
    case False
    with "1.prems" have "i = 624" by simp
    then show ?thesis using "1.prems" by (subst seed_loop.simps) simp
  qed
qed

lemma seed_loop_fresh:
  assumes "length x = 624"
  shows "seed_loop 1 (x[0 := v]) = map (seed_word v) [0..<624]"
proof (rule nth_equalityI)
  show "length (seed_loop 1 (x[0 := v])) = length (map (seed_word v) [0..<624])"
    using assms by (simp add: seed_loop_length)
next
  fix j assume "j < length (seed_loop 1 (x[0 := v]))"
  then have j: "j < 624" using assms by (simp add: seed_loop_length)
  have "\<forall>j<624. seed_loop 1 (x[0 := v]) ! j = seed_word v j"
    by (rule seed_loop_inv) (use assms in auto)
  with j show "seed_loop 1 (x[0 := v]) ! j = map (seed_word v) [0..<624] ! j"
    by simp
qed

text \<open>
  The recurrence on the default seed of \<^verbatim>\<open>std::mt19937\<close>, 5489: the first words of
  the state every implementation of the engine starts from.
\<close>

lemma seed_word_5489:
  "map (seed_word 5489) [0, 1, 2, 3] = [5489, 1301868182, 2938499221, 2950281878]"
  by code_simp

lemma mt19937_seed_fresh:
  assumes "length (mt_x e) = 624"
  shows "mt19937_seed value e = mt19937_ctor value"
proof -
  have "seed_loop 1 ((mt_x e)[0 := ucast value]) = map (seed_word (ucast value)) [0..<624]"
    using assms by (rule seed_loop_fresh)
  then show ?thesis
    unfolding mt19937_seed_def mt19937_ctor_def by (cases e) simp
qed

lemma ucast_low_32:
  fixes s1 s2 :: "'a::len word"
  shows "(ucast s1 :: u32) = ucast s2 \<longleftrightarrow> unat s1 mod 2 ^ 32 = unat s2 mod 2 ^ 32"
  by (simp add: word_unat_eq_iff unsigned_ucast_eq take_bit_eq_mod)

subsection \<open>A sequence of calls sees and changes the engine only\<close>

lemma on_engine_Some:
  "engine (objs w this) = Some e \<Longrightarrow>
   on_engine d this w = Inr (fst (d e), with_engine this (snd (d e)) w)"
  by (simp add: on_engine_def with_engine_def split: prod.splits)

lemma on_engine_None:
  "engine (objs w this) = None \<Longrightarrow> on_engine d this w = Inl null_engine"
  by (simp add: on_engine_def)

lemma call_sample_draw:
  "engine (objs w this) = Some e \<Longrightarrow>
   call_sample L c this w = Inr (fst (draw L c e), with_engine this (snd (draw L c e)) w)"
  by (cases c)
     (simp_all add: uniform_int_def uniform_real_def uniform_probability_def normal_real_def
        on_engine_Some)

lemma engine_with_engine: "engine (objs (with_engine this e w) this) = Some e"
  by (simp add: with_engine_def)

lemma with_engine_twice: "with_engine this e2 (with_engine this e1 w) = with_engine this e2 w"
  by (simp add: with_engine_def)

lemma with_engine_same:
  assumes "engine (objs w this) = Some e"
  shows "with_engine this e w = w"
proof -
  have "(objs w this)\<lparr>engine := Some e\<rparr> = objs w this"
    using assms by (cases "objs w this") simp
  then have "(objs w)(this := (objs w this)\<lparr>engine := Some e\<rparr>) = objs w"
    by (simp only: fun_upd_triv)
  then show ?thesis unfolding with_engine_def by simp
qed

lemma samples_draws:
  "engine (objs w this) = Some e \<Longrightarrow>
   samples L cs this w = Inr (fst (draws L cs e), with_engine this (snd (draws L cs e)) w)"
proof (induction cs arbitrary: w e)
  case Nil
  then show ?case by (simp add: with_engine_same)
next
  case (Cons c cs)
  obtain v e1 where d1: "draw L c e = (v, e1)" by (cases "draw L c e")
  obtain vs e2 where d2: "draws L cs e1 = (vs, e2)" by (cases "draws L cs e1")
  have step: "call_sample L c this w = Inr (v, with_engine this e1 w)"
    using call_sample_draw[OF Cons.prems, of L c] d1 by simp
  have "samples L cs this (with_engine this e1 w) =
      Inr (fst (draws L cs e1), with_engine this (snd (draws L cs e1)) (with_engine this e1 w))"
    by (rule Cons.IH) (rule engine_with_engine)
  then have rest: "samples L cs this (with_engine this e1 w) = Inr (vs, with_engine this e2 w)"
    using d2 by (simp add: with_engine_twice)
  have "samples L (c # cs) this w = Inr (v # vs, with_engine this e2 w)"
    by (simp add: step rest)
  moreover have "draws L (c # cs) e = (v # vs, e2)"
    by (simp add: d1 d2)
  ultimately show ?case by simp
qed

subsection \<open>Construction, move and assignment: where the engine ends up\<close>

lemma from_seed_engine:
  "RandomTwister_from_seed S this w = Inr w' \<Longrightarrow> engine (objs w' this) = Some (mt19937_ctor S)"
  by (auto simp: RandomTwister_from_seed_def operator_new_def split: if_splits)

lemma move_objs:
  "objs (RandomTwister_move this other w) =
     (objs w)(other := (objs w other)\<lparr>engine := None\<rparr>, this := \<lparr>engine = engine (objs w other)\<rparr>)"
  by (simp add: RandomTwister_move_def Let_def)

lemma swap_objs:
  "objs (swap this other w) =
     (let f = (objs w)(this := (objs w this)\<lparr>engine := engine (objs w other)\<rparr>)
      in f(other := (f other)\<lparr>engine := engine (objs w this)\<rparr>))"
  by (simp add: swap_def Let_def)

lemma destroy_engine:
  "engine (objs (destroy t w) x) = (if x = t then None else engine (objs w x))"
  by (simp add: destroy_def split: option.splits)

lemma operator_assign_engine:
  "engine (objs (operator_assign d s w) (Obj d)) = engine (objs w (Obj s))"
  by (simp add: operator_assign_def destroy_engine swap_objs move_objs Let_def)

lemma move_engine:
  "d \<noteq> s \<Longrightarrow> engine (objs (RandomTwister_move d s w) d) = engine (objs w s)"
  by (simp add: RandomTwister_move_def Let_def)

section \<open>The claims\<close>

subsection \<open>Determinism\<close>

text \<open>
  C1: two instances constructed with the same seed and given the same sequence of
  sampling calls with the same arguments return the same sequence of values. The two
  instances may live at different places, in worlds that differ in every other respect
  (other objects, free store, entropy source): once both constructions have succeeded,
  both sequences of calls succeed and their outputs are equal.
\<close>

theorem same_seed_same_samples:
  assumes "RandomTwister_from_seed S a w1 = Inr w1'"
      and "RandomTwister_from_seed S b w2 = Inr w2'"
  shows "\<exists>out u1 u2. samples L cs a w1' = Inr (out, u1) \<and> samples L cs b w2' = Inr (out, u2)"
proof -
  have "engine (objs w1' a) = Some (mt19937_ctor S)" "engine (objs w2' b) = Some (mt19937_ctor S)"
    using assms by (simp_all add: from_seed_engine)
  then show ?thesis
    by (simp add: samples_draws)
qed

text \<open>
  The scenario of the spec, seed 42 and three calls \<^verbatim>\<open>uniform_int<int>(1, 100)\<close>,
  with the second instance built in a world with another free store and entropy position.
\<close>

theorem same_seed_same_samples_witness:
  "\<exists>w1' w2'. RandomTwister_from_seed (42 :: 32 word) (Obj 0) start = Inr w1'
     \<and> RandomTwister_from_seed (42 :: 32 word) (Obj 1) (start\<lparr>free_blocks := 7, entropy_pos := 3\<rparr>) = Inr w2'
     \<and> (\<exists>out u1 u2.
          samples lowest_lib [Uniform_int 1 100, Uniform_int 1 100, Uniform_int 1 100] (Obj 0) w1' = Inr (out, u1)
        \<and> samples lowest_lib [Uniform_int 1 100, Uniform_int 1 100, Uniform_int 1 100] (Obj 1) w2' = Inr (out, u2))"
proof -
  obtain w1' where c1: "RandomTwister_from_seed (42 :: 32 word) (Obj 0) start = Inr w1'"
    by (simp add: RandomTwister_from_seed_def operator_new_def start_def)
  obtain w2' where c2: "RandomTwister_from_seed (42 :: 32 word) (Obj 1) (start\<lparr>free_blocks := 7, entropy_pos := 3\<rparr>) = Inr w2'"
    by (simp add: RandomTwister_from_seed_def operator_new_def start_def)
  from same_seed_same_samples[OF c1 c2] c1 c2 show ?thesis by blast
qed

subsection \<open>Range of uniform_int\<close>

text \<open>
  C2: on a valid generator and for \<open>lo \<le> hi\<close>, \<^verbatim>\<open>uniform_int(lo, hi)\<close> returns a
  value \<open>v\<close> with \<open>lo \<le> v \<le> hi\<close>, for every integer type (any linearly ordered type
  \<open>'i\<close>) whose library distribution answers within its bounds: the member hands the
  bounds over in their order and returns the answer as it is.
\<close>

theorem uniform_int_within_bounds:
  assumes "uniform_int_distribution_in_range dist"
      and "engine (objs w this) = Some e"
      and "lo \<le> hi"
  shows "\<exists>v w'. uniform_int dist lo hi this w = Inr (v, w') \<and> lo \<le> v \<and> v \<le> hi"
proof -
  have "lo \<le> fst (dist lo hi e) \<and> fst (dist lo hi e) \<le> hi"
    using assms(1,3) by (simp add: uniform_int_distribution_in_range_def)
  then show ?thesis
    by (simp add: uniform_int_def on_engine_Some[OF assms(2)])
qed

theorem uniform_int_within_bounds_witness:
  "uniform_int_distribution_in_range (lowest :: int \<Rightarrow> int \<Rightarrow> mt19937 \<Rightarrow> int \<times> mt19937)
   \<and> engine (objs (with_engine (Obj 0) (mt19937_ctor (42 :: 32 word)) start) (Obj 0)) = Some (mt19937_ctor (42 :: 32 word))
   \<and> (1 :: int) \<le> 100
   \<and> (\<exists>v w'. uniform_int lowest (1 :: int) 100 (Obj 0) (with_engine (Obj 0) (mt19937_ctor (42 :: 32 word)) start) = Inr (v, w')
        \<and> 1 \<le> v \<and> v \<le> 100)"
proof -
  have c: "uniform_int_distribution_in_range (lowest :: int \<Rightarrow> int \<Rightarrow> mt19937 \<Rightarrow> int \<times> mt19937)"
    by (simp add: uniform_int_distribution_in_range_def lowest_def)
  have h: "engine (objs (with_engine (Obj 0) (mt19937_ctor (42 :: 32 word)) start) (Obj 0)) = Some (mt19937_ctor (42 :: 32 word))"
    by (rule engine_with_engine)
  have b: "(1 :: int) \<le> 100" by simp
  from uniform_int_within_bounds[OF c h b] c h b show ?thesis by blast
qed

subsection \<open>Reseeding\<close>

text \<open>
  C4: \<^verbatim>\<open>seed(X)\<close> on a valid generator, whatever state its engine is in (624 words,
  any content and position), succeeds, and from then on any sequence of sampling calls
  returns what it returns on a generator freshly constructed with seed \<open>X\<close>: the state
  before the call has no influence.
\<close>

theorem seed_restarts_stream:
  assumes "engine (objs w this) = Some e"
      and "length (mt_x e) = 624"
      and "RandomTwister_from_seed X that w0 = Inr w0'"
  shows "\<exists>w1 out u1 u0. seed X this w = Inr w1
     \<and> samples L cs this w1 = Inr (out, u1) \<and> samples L cs that w0' = Inr (out, u0)"
proof -
  have s: "seed X this w = Inr (with_engine this (mt19937_ctor X) w)"
    using assms(1,2) by (simp add: seed_def with_engine_def mt19937_seed_fresh)
  have "engine (objs w0' that) = Some (mt19937_ctor X)"
    using assms(3) by (rule from_seed_engine)
  then show ?thesis
    by (simp add: s samples_draws engine_with_engine)
qed

theorem seed_restarts_stream_witness:
  "\<exists>e w0'. engine (objs (with_engine (Obj 0) (mt19937_ctor (7 :: 64 word)\<lparr>mt_i := 3\<rparr>) start) (Obj 0)) = Some e
     \<and> length (mt_x e) = 624
     \<and> RandomTwister_from_seed (42 :: 64 word) (Obj 1) start = Inr w0'
     \<and> (\<exists>w1 out u1 u0.
          seed (42 :: 64 word) (Obj 0) (with_engine (Obj 0) (mt19937_ctor (7 :: 64 word)\<lparr>mt_i := 3\<rparr>) start) = Inr w1
        \<and> samples lowest_lib [Uniform_probability, Normal_real double_0 double_1] (Obj 0) w1 = Inr (out, u1)
        \<and> samples lowest_lib [Uniform_probability, Normal_real double_0 double_1] (Obj 1) w0' = Inr (out, u0))"
proof -
  let ?e = "mt19937_ctor (7 :: 64 word)\<lparr>mt_i := 3\<rparr>"
  let ?w = "with_engine (Obj 0) ?e start"
  have h1: "engine (objs ?w (Obj 0)) = Some ?e"
    by (rule engine_with_engine)
  have h2: "length (mt_x ?e) = 624"
    by (simp add: mt19937_ctor_def)
  obtain w0' where h3: "RandomTwister_from_seed (42 :: 64 word) (Obj 1) start = Inr w0'"
    by (simp add: RandomTwister_from_seed_def operator_new_def start_def)
  from seed_restarts_stream[OF h1 h2 h3] h1 h2 h3 show ?thesis by blast
qed

text \<open>
  C9: two seeds that agree modulo \<open>2^32\<close> are the same seed to the generator, for an
  \<^verbatim>\<open>unsigned long\<close> of any width: constructing with one or the other gives the same
  outcome and the same engine, and so does reseeding, hence the same samples ever after.
\<close>

theorem seed_keeps_low_32_bits:
  fixes S1 S2 :: "'a::len word"
  assumes "unat S1 mod 2 ^ 32 = unat S2 mod 2 ^ 32"
  shows "RandomTwister_from_seed S1 this w = RandomTwister_from_seed S2 this w
     \<and> seed S1 this w = seed S2 this w"
proof -
  have u: "(ucast S1 :: u32) = ucast S2"
    using assms by (simp add: ucast_low_32)
  have c: "mt19937_ctor S1 = mt19937_ctor S2"
    by (simp add: mt19937_ctor_def u)
  have s: "mt19937_seed S1 e = mt19937_seed S2 e" for e
    by (simp add: mt19937_seed_def u)
  show ?thesis
    unfolding RandomTwister_from_seed_def seed_def c s by simp
qed

theorem seed_keeps_low_32_bits_witness:
  "unat (42 :: 64 word) mod 2 ^ 32 = unat (4294967338 :: 64 word) mod 2 ^ 32
   \<and> RandomTwister_from_seed (42 :: 64 word) (Obj 0) start
       = RandomTwister_from_seed (4294967338 :: 64 word) (Obj 0) start
   \<and> seed (42 :: 64 word) (Obj 1) (with_engine (Obj 1) (mt19937_ctor (7 :: 64 word)) start)
       = seed (4294967338 :: 64 word) (Obj 1) (with_engine (Obj 1) (mt19937_ctor (7 :: 64 word)) start)"
proof -
  have h: "unat (42 :: 64 word) mod 2 ^ 32 = unat (4294967338 :: 64 word) mod 2 ^ 32"
    by simp
  from seed_keeps_low_32_bits[OF h] h show ?thesis by blast
qed

subsection \<open>Move construction and move assignment\<close>

text \<open>
  C5: when a valid generator \<open>s\<close> is moved from, by move assignment to \<open>d\<close> or by move
  construction of a new object \<open>d\<close>, any sequence of sampling calls on \<open>d\<close> afterwards
  returns what the same calls would have returned on \<open>s\<close>, had it not been moved.
\<close>

theorem move_keeps_stream:
  assumes "engine (objs w (Obj s)) = Some e"
  shows "\<exists>out u. samples L cs (Obj s) w = Inr (out, u)
     \<and> (\<exists>u'. samples L cs (Obj d) (operator_assign d s w) = Inr (out, u'))
     \<and> (d \<noteq> s \<longrightarrow> (\<exists>u'. samples L cs (Obj d) (RandomTwister_move (Obj d) (Obj s) w) = Inr (out, u')))"
proof -
  have a: "engine (objs (operator_assign d s w) (Obj d)) = Some e"
    using assms by (simp add: operator_assign_engine)
  have m: "d \<noteq> s \<Longrightarrow> engine (objs (RandomTwister_move (Obj d) (Obj s) w) (Obj d)) = Some e"
    using assms by (simp add: move_engine)
  show ?thesis
    using m by (simp add: samples_draws[OF assms] samples_draws[OF a] samples_draws)
qed

theorem move_keeps_stream_witness:
  "engine (objs (with_engine (Obj 1) (mt19937_ctor (7 :: 32 word)) start) (Obj 1)) = Some (mt19937_ctor (7 :: 32 word))
   \<and> (0 :: nat) \<noteq> 1
   \<and> (\<exists>out u. samples lowest_lib [Uniform_int 1 6, Uniform_real 2 3] (Obj 1)
                  (with_engine (Obj 1) (mt19937_ctor (7 :: 32 word)) start) = Inr (out, u)
      \<and> (\<exists>u'. samples lowest_lib [Uniform_int 1 6, Uniform_real 2 3] (Obj 0)
                  (operator_assign 0 1 (with_engine (Obj 1) (mt19937_ctor (7 :: 32 word)) start)) = Inr (out, u'))
      \<and> (\<exists>u'. samples lowest_lib [Uniform_int 1 6, Uniform_real 2 3] (Obj 0)
                  (RandomTwister_move (Obj 0) (Obj 1) (with_engine (Obj 1) (mt19937_ctor (7 :: 32 word)) start))
                = Inr (out, u')))"
proof -
  let ?w = "with_engine (Obj 1) (mt19937_ctor (7 :: 32 word)) start"
  have h: "engine (objs ?w (Obj 1)) = Some (mt19937_ctor (7 :: 32 word))"
    by (rule engine_with_engine)
  from move_keeps_stream[OF h, of lowest_lib "[Uniform_int 1 6, Uniform_real 2 3]" 0] h
  show ?thesis by simp
qed

text \<open>
  C10: move assignment of a valid generator to itself leaves it valid with the same
  engine state, frees no block, and its samples afterwards are those it would have
  returned without the assignment.
\<close>

theorem self_move_assign_keeps_engine:
  assumes "engine (objs w (Obj a)) = Some e"
  shows "engine (objs (operator_assign a a w) (Obj a)) = Some e
     \<and> free_blocks (operator_assign a a w) = free_blocks w
     \<and> (\<exists>out u u'. samples L cs (Obj a) (operator_assign a a w) = Inr (out, u)
                   \<and> samples L cs (Obj a) w = Inr (out, u'))"
proof -
  have a: "engine (objs (operator_assign a a w) (Obj a)) = Some e"
    using assms by (simp add: operator_assign_engine)
  have f: "free_blocks (operator_assign a a w) = free_blocks w"
    by (simp add: operator_assign_def destroy_def swap_def RandomTwister_move_def Let_def)
  show ?thesis
    by (simp add: a f samples_draws[OF assms] samples_draws[OF a])
qed

theorem self_move_assign_keeps_engine_witness:
  "engine (objs (with_engine (Obj 2) (mt19937_ctor (9 :: 32 word)) start) (Obj 2)) = Some (mt19937_ctor (9 :: 32 word))
   \<and> engine (objs (operator_assign 2 2 (with_engine (Obj 2) (mt19937_ctor (9 :: 32 word)) start)) (Obj 2))
       = Some (mt19937_ctor (9 :: 32 word))
   \<and> free_blocks (operator_assign 2 2 (with_engine (Obj 2) (mt19937_ctor (9 :: 32 word)) start)) = 2
   \<and> (\<exists>out u u'.
        samples lowest_lib [Uniform_int 1 6] (Obj 2)
          (operator_assign 2 2 (with_engine (Obj 2) (mt19937_ctor (9 :: 32 word)) start)) = Inr (out, u)
      \<and> samples lowest_lib [Uniform_int 1 6] (Obj 2)
          (with_engine (Obj 2) (mt19937_ctor (9 :: 32 word)) start) = Inr (out, u'))"
proof -
  let ?w = "with_engine (Obj 2) (mt19937_ctor (9 :: 32 word)) start"
  have h: "engine (objs ?w (Obj 2)) = Some (mt19937_ctor (9 :: 32 word))"
    by (rule engine_with_engine)
  have f: "free_blocks ?w = 2"
    by (simp add: with_engine_def start_def)
  from self_move_assign_keeps_engine[OF h, of lowest_lib "[Uniform_int 1 6]"] h f
  show ?thesis by simp
qed

subsection \<open>uniform_probability\<close>

text \<open>
  C6: \<^verbatim>\<open>uniform_probability()\<close> and \<^verbatim>\<open>uniform_real<double>(0.0, 1.0)\<close> are the same
  operation: from every state, valid or not, both return the same value and leave the
  same state behind (or both fail on the null engine).
\<close>

theorem uniform_probability_is_uniform_real:
  "uniform_probability dist this w = uniform_real dist double_0 double_1 this w"
  by (simp add: uniform_probability_def uniform_real_def)

subsection \<open>Failures and effects\<close>



text \<open>
  C8: a sampling call on a valid generator changes nothing but the engine state of that
  generator: the world after the call is the world before it with that one field
  replaced, so the free store, the entropy source and every other object are as before.
\<close>

theorem sampling_changes_engine_only:
  assumes "engine (objs w this) = Some e"
  shows "\<exists>v e' w'. call_sample L c this w = Inr (v, w')
     \<and> w' = w\<lparr>objs := (objs w)(this := (objs w this)\<lparr>engine := Some e'\<rparr>)\<rparr>
     \<and> free_blocks w' = free_blocks w \<and> entropy w' = entropy w \<and> entropy_pos w' = entropy_pos w
     \<and> (\<forall>x. x \<noteq> this \<longrightarrow> objs w' x = objs w x)"
proof (intro exI conjI)
  show "call_sample L c this w = Inr (fst (draw L c e), with_engine this (snd (draw L c e)) w)"
    using assms by (rule call_sample_draw)
  show "with_engine this (snd (draw L c e)) w
      = w\<lparr>objs := (objs w)(this := (objs w this)\<lparr>engine := Some (snd (draw L c e))\<rparr>)\<rparr>"
    by (simp add: with_engine_def)
qed (simp_all add: with_engine_def)

theorem sampling_changes_engine_only_witness:
  "engine (objs (with_engine (Obj 0) (mt19937_ctor (7 :: 32 word)) start) (Obj 0)) = Some (mt19937_ctor (7 :: 32 word))
   \<and> (\<exists>v e' w'. call_sample lowest_lib (Uniform_int 1 6) (Obj 0)
                   (with_engine (Obj 0) (mt19937_ctor (7 :: 32 word)) start) = Inr (v, w')
        \<and> w' = with_engine (Obj 0) e' start
        \<and> free_blocks w' = 2 \<and> entropy_pos w' = 0 \<and> objs w' (Obj 1) = \<lparr>engine = None\<rparr>)"
proof -
  let ?w = "with_engine (Obj 0) (mt19937_ctor (7 :: 32 word)) start"
  have h: "engine (objs ?w (Obj 0)) = Some (mt19937_ctor (7 :: 32 word))"
    by (rule engine_with_engine)
  obtain v e' w' where r: "call_sample lowest_lib (Uniform_int 1 6) (Obj 0) ?w = Inr (v, w')"
      "w' = ?w\<lparr>objs := (objs ?w)(Obj 0 := (objs ?w (Obj 0))\<lparr>engine := Some e'\<rparr>)\<rparr>"
      "free_blocks w' = free_blocks ?w" "entropy_pos w' = entropy_pos ?w"
      "\<forall>x. x \<noteq> Obj 0 \<longrightarrow> objs w' x = objs ?w x"
    using sampling_changes_engine_only[OF h, of lowest_lib "Uniform_int 1 6"] by blast
  have 1: "w' = with_engine (Obj 0) e' start"
    using r(2) by (simp add: with_engine_def)
  have 2: "free_blocks w' = 2" "entropy_pos w' = 0"
    using r(3,4) by (simp_all add: with_engine_def start_def)
  have 3: "objs w' (Obj 1) = \<lparr>engine = None\<rparr>"
    using r(5) by (simp add: with_engine_def start_def)
  from h r(1) 1 2 3 show ?thesis by blast
qed

end
